theory Spec2Isabelle
  imports Complex_Main
begin

section \<open>Numbers, dates and promises\<close>

text \<open>
  A TypeScript \<open>number\<close> is modelled as an exact rational: the finite values, with no
  rounding. The IEEE values Infinity and NaN are not represented, so every theorem that
  goes through a division whose divisor is not a constant carries the hypothesis that the
  divisor is not zero. A \<open>Date\<close> is its time value, the milliseconds since the epoch, as
  an integer; the clock (\<open>new Date()\<close>, \<open>Date.now()\<close>) is the parameter \<open>now\<close> of
  each operation, read once per call.
\<close>

type_synonym number = rat

type_synonym Date = int

definition Math_floor :: "number \<Rightarrow> number" where
  "Math_floor x = of_int \<lfloor>x\<rfloor>"

text \<open>
  \<open>new Date(t)\<close> drops the fraction of a millisecond, towards zero. Times stay within the
  range of a \<open>Date\<close> (8.64e15 ms either side of the epoch); an invalid date is not
  represented.
\<close>

definition new_Date :: "number \<Rightarrow> Date" where
  "new_Date t = (if 0 \<le> t then \<lfloor>t\<rfloor> else \<lceil>t\<rceil>)"

definition getTime :: "Date \<Rightarrow> number" where
  "getTime d = of_int d"

definition msPerDay :: number where
  "msPerDay = 24 * 60 * 60 * 1000"

text \<open>
  An \<open>async\<close> method settles its promise: \<open>return\<close> fulfils it, \<open>throw\<close> rejects it
  with the thrown \<open>Error\<close>, which \<open>await\<close> throws again in the caller.
\<close>

datatype js_error = Error string

datatype 'a promise = Fulfilled 'a | Rejected js_error

section \<open>Staking tiers\<close>

datatype StakingTier = Diamond | Gold | Silver | Bronze | Public

record TierConfig =
  tierName :: string
  minStake :: number
  lockDays :: number
  allocationWeight :: number
  guaranteedAllocation :: bool
  lotteryBoost :: number
  feeDiscount :: number
  priorityAccess :: bool
  maxAllocationPercent :: number

record StakerPosition =
  wallet :: string
  stakedAmount :: number
  stakedAt :: Date
  lockEndDate :: Date
  tier :: StakingTier
  strongHolderScore :: number
  effectiveWeight :: number
  totalAllocationsReceived :: number
  totalAllocationsValue :: number
  loyaltyStreak :: number

record StakeRequest =
  stakeWallet :: string
  stakeAmount :: number
  stakeLockDays :: number

record UnstakeRequest =
  unstakeWallet :: string
  unstakeAmount :: number
  early :: bool

fun TIER_CONFIG :: "StakingTier \<Rightarrow> TierConfig" where
  "TIER_CONFIG Diamond = \<lparr>tierName = ''Diamond'', minStake = 100000, lockDays = 180,
     allocationWeight = 10, guaranteedAllocation = True, lotteryBoost = 5,
     feeDiscount = 6 / 10, priorityAccess = True, maxAllocationPercent = 5\<rparr>"
| "TIER_CONFIG Gold = \<lparr>tierName = ''Gold'', minStake = 50000, lockDays = 90,
     allocationWeight = 5, guaranteedAllocation = True, lotteryBoost = 3,
     feeDiscount = 4 / 10, priorityAccess = True, maxAllocationPercent = 3\<rparr>"
| "TIER_CONFIG Silver = \<lparr>tierName = ''Silver'', minStake = 20000, lockDays = 60,
     allocationWeight = 25 / 10, guaranteedAllocation = False, lotteryBoost = 2,
     feeDiscount = 25 / 100, priorityAccess = False, maxAllocationPercent = 2\<rparr>"
| "TIER_CONFIG Bronze = \<lparr>tierName = ''Bronze'', minStake = 5000, lockDays = 30,
     allocationWeight = 1, guaranteedAllocation = False, lotteryBoost = 15 / 10,
     feeDiscount = 1 / 10, priorityAccess = False, maxAllocationPercent = 1\<rparr>"
| "TIER_CONFIG Public = \<lparr>tierName = ''Public'', minStake = 0, lockDays = 0,
     allocationWeight = 25 / 100, guaranteedAllocation = False, lotteryBoost = 1,
     feeDiscount = 0, priorityAccess = False, maxAllocationPercent = 5 / 10\<rparr>"

definition EARLY_UNSTAKE_PENALTY :: number where
  "EARLY_UNSTAKE_PENALTY = 1 / 10"

definition SHS_MIN_MULTIPLIER :: number where
  "SHS_MIN_MULTIPLIER = 5 / 10"

definition SHS_MAX_MULTIPLIER :: number where
  "SHS_MAX_MULTIPLIER = 2"

text \<open>
  The position of a tier in the array \<open>['public', 'bronze', 'silver', 'gold', 'diamond']\<close>
  that \<open>validateRequest\<close> compares tiers with (\<open>tierOrder.indexOf\<close>).
\<close>

fun tierIndex :: "StakingTier \<Rightarrow> nat" where
  "tierIndex Public = 0"
| "tierIndex Bronze = 1"
| "tierIndex Silver = 2"
| "tierIndex Gold = 3"
| "tierIndex Diamond = 4"

text \<open>The string a tier is in the source, as the error messages print it.\<close>

fun tierString :: "StakingTier \<Rightarrow> string" where
  "tierString Diamond = ''diamond''"
| "tierString Gold = ''gold''"
| "tierString Silver = ''silver''"
| "tierString Bronze = ''bronze''"
| "tierString Public = ''public''"

definition getTierForStake :: "number \<Rightarrow> number \<Rightarrow> StakingTier" where
  "getTierForStake amount days =
     (if amount \<ge> minStake (TIER_CONFIG Diamond) \<and> days \<ge> lockDays (TIER_CONFIG Diamond)
        then Diamond
      else if amount \<ge> minStake (TIER_CONFIG Gold) \<and> days \<ge> lockDays (TIER_CONFIG Gold)
        then Gold
      else if amount \<ge> minStake (TIER_CONFIG Silver) \<and> days \<ge> lockDays (TIER_CONFIG Silver)
        then Silver
      else if amount \<ge> minStake (TIER_CONFIG Bronze) \<and> days \<ge> lockDays (TIER_CONFIG Bronze)
        then Bronze
      else Public)"



definition shsToMultiplier :: "number \<Rightarrow> number" where
  "shsToMultiplier shs =
     (let normalized = shs / 100
      in SHS_MIN_MULTIPLIER + normalized * (SHS_MAX_MULTIPLIER - SHS_MIN_MULTIPLIER))"

definition getEffectiveWeight :: "StakingTier \<Rightarrow> number \<Rightarrow> number" where
  "getEffectiveWeight t shs =
     (let tierConfig = TIER_CONFIG t;
          shsMultiplier = shsToMultiplier shs
      in allocationWeight tierConfig * shsMultiplier)"

subsection \<open>The staking ledger\<close>

text \<open>
  \<open>StakingTierManager.stakers\<close> is a \<open>Map\<close> from wallet to position. Each operation
  takes the ledger and returns what the method returns together with the ledger it leaves.
\<close>

type_synonym Stakers = "string \<rightharpoonup> StakerPosition"

definition stake :: "Stakers \<Rightarrow> StakeRequest \<Rightarrow> Date \<Rightarrow> StakerPosition promise \<times> Stakers" where
  "stake stakers request now =
     (let tier0 = getTierForStake (stakeAmount request) (stakeLockDays request);
          position =
            (case stakers (stakeWallet request) of
               Some pos \<Rightarrow>
                 (let pos = pos\<lparr>stakedAmount := stakedAmount pos + stakeAmount request\<rparr>;
                      pos = pos\<lparr>lockEndDate :=
                              new_Date (max (getTime (lockEndDate pos))
                                            (of_int now + stakeLockDays request * 24 * 60 * 60 * 1000))\<rparr>
                  in pos\<lparr>tier := getTierForStake (stakedAmount pos) (stakeLockDays request)\<rparr>)
             | None \<Rightarrow>
                 (let shs = 50
                  in \<lparr>wallet = stakeWallet request,
                      stakedAmount = stakeAmount request,
                      stakedAt = now,
                      lockEndDate = new_Date (of_int now + stakeLockDays request * 24 * 60 * 60 * 1000),
                      tier = tier0,
                      strongHolderScore = shs,
                      effectiveWeight = getEffectiveWeight tier0 shs,
                      totalAllocationsReceived = 0,
                      totalAllocationsValue = 0,
                      loyaltyStreak = 0\<rparr>));
          position = position\<lparr>effectiveWeight :=
                       getEffectiveWeight (tier position) (strongHolderScore position)\<rparr>
      in (Fulfilled position, stakers(stakeWallet request \<mapsto> position)))"

record UnstakeResult =
  amountReturned :: number
  penaltyApplied :: number
  newPosition :: "StakerPosition option"

definition unstake :: "Stakers \<Rightarrow> UnstakeRequest \<Rightarrow> Date \<Rightarrow> UnstakeResult promise \<times> Stakers" where
  "unstake stakers request now =
     (case stakers (unstakeWallet request) of
        None \<Rightarrow> (Rejected (Error ''No staking position found''), stakers)
      | Some position \<Rightarrow>
          if unstakeAmount request > stakedAmount position
          then (Rejected (Error ''Insufficient staked balance''), stakers)
          else
            (let applies = (early request \<and> lockEndDate position > now);
                 penalty = (if applies then unstakeAmount request * EARLY_UNSTAKE_PENALTY else 0);
                 returned = (if applies then unstakeAmount request - penalty
                             else unstakeAmount request);
                 position = position\<lparr>stakedAmount := stakedAmount position - unstakeAmount request\<rparr>
             in if stakedAmount position \<le> 0
                then (Fulfilled \<lparr>amountReturned = returned, penaltyApplied = penalty,
                                 newPosition = None\<rparr>,
                      stakers(unstakeWallet request := None))
                else
                  (let remainingLockDays =
                         max 0 (Math_floor ((getTime (lockEndDate position) - of_int now)
                                            / (24 * 60 * 60 * 1000)));
                       position = position\<lparr>tier :=
                                    getTierForStake (stakedAmount position) remainingLockDays\<rparr>;
                       position = position\<lparr>effectiveWeight :=
                                    getEffectiveWeight (tier position) (strongHolderScore position)\<rparr>
                   in (Fulfilled \<lparr>amountReturned = returned, penaltyApplied = penalty,
                                    newPosition = Some position\<rparr>,
                       stakers(unstakeWallet request \<mapsto> position)))))"

definition getPosition :: "Stakers \<Rightarrow> string \<Rightarrow> StakerPosition option" where
  "getPosition stakers w = stakers w"

definition updateSHS :: "Stakers \<Rightarrow> string \<Rightarrow> number \<Rightarrow> Stakers" where
  "updateSHS stakers w newSHS =
     (case stakers w of
        Some position \<Rightarrow>
          (let position = position\<lparr>strongHolderScore := newSHS\<rparr>;
               position = position\<lparr>effectiveWeight := getEffectiveWeight (tier position) newSHS\<rparr>
           in stakers(w \<mapsto> position))
      | None \<Rightarrow> stakers)"

definition hasGuaranteedAllocation :: "Stakers \<Rightarrow> string \<Rightarrow> bool" where
  "hasGuaranteedAllocation stakers w =
     (case stakers w of
        None \<Rightarrow> False
      | Some position \<Rightarrow> guaranteedAllocation (TIER_CONFIG (tier position)))"

definition getLotteryBoost :: "Stakers \<Rightarrow> string \<Rightarrow> number" where
  "getLotteryBoost stakers w =
     (case stakers w of
        None \<Rightarrow> lotteryBoost (TIER_CONFIG Public)
      | Some position \<Rightarrow>
          lotteryBoost (TIER_CONFIG (tier position)) * shsToMultiplier (strongHolderScore position))"

section \<open>Allocation pools\<close>

datatype AllocationPool =
  guaranteed | weighted_lottery | public_lottery | fcfs | flipper | liquidity | trader_rewards

datatype Mechanism = mech_prorata | mech_lottery | mech_fcfs | mech_auto

datatype PoolStatus = PoolPending | PoolOpen | PoolClosed | PoolDistributed

datatype EntryStatus = EntryPending | Won | Lost | Filled

record PoolConfig =
  poolName :: string
  percent :: number
  requiresStaking :: bool
  minTier :: "StakingTier option"
  maxPerWallet :: number
  mechanism :: Mechanism
  poolVestingDays :: number
  exitFee :: number

record Release =
  date :: Date
  amount :: number
  released :: bool

record VestingSchedule =
  vestTotalTokens :: number
  releasedTokens :: number
  cliffDays :: number
  vestingDays :: number
  startDate :: Date
  releases :: "Release list"

record AllocationEntry =
  entryWallet :: string
  entryPool :: AllocationPool
  requestedAmount :: number
  allocatedTokens :: number
  allocatedValueUSD :: number
  weight :: number
  lotteryTickets :: number
  vestingSchedule :: "VestingSchedule option"
  entryStatus :: EntryStatus

record PoolAllocation =
  pool :: AllocationPool
  totalTokens :: number
  totalValueUSD :: number
  allocated :: number
  remaining :: number
  participants :: "AllocationEntry list"
  status :: PoolStatus

record LaunchAllocation =
  launchId :: string
  launchTotalTokens :: number
  tokenPrice :: number
  pools :: "AllocationPool \<Rightarrow> PoolAllocation"
  participantCount :: number
  oversubscribed :: bool
  oversubscriptionRatio :: number

record AllocationRequest =
  reqWallet :: string
  reqLaunchId :: string
  reqPool :: AllocationPool
  amountUSD :: number

fun POOL_CONFIG :: "AllocationPool \<Rightarrow> PoolConfig" where
  "POOL_CONFIG guaranteed = \<lparr>poolName = ''Guaranteed Allocation'', percent = 30,
     requiresStaking = True, minTier = Some Gold, maxPerWallet = 25000,
     mechanism = mech_prorata, poolVestingDays = 0, exitFee = 0\<rparr>"
| "POOL_CONFIG weighted_lottery = \<lparr>poolName = ''Weighted Lottery'', percent = 25,
     requiresStaking = True, minTier = Some Bronze, maxPerWallet = 5000,
     mechanism = mech_lottery, poolVestingDays = 0, exitFee = 0\<rparr>"
| "POOL_CONFIG public_lottery = \<lparr>poolName = ''Public Lottery'', percent = 10,
     requiresStaking = False, minTier = None, maxPerWallet = 500,
     mechanism = mech_lottery, poolVestingDays = 0, exitFee = 0\<rparr>"
| "POOL_CONFIG fcfs = \<lparr>poolName = ''First Come First Serve'', percent = 5,
     requiresStaking = False, minTier = None, maxPerWallet = 100,
     mechanism = mech_fcfs, poolVestingDays = 0, exitFee = 0\<rparr>"
| "POOL_CONFIG flipper = \<lparr>poolName = ''Flipper Pool'', percent = 5,
     requiresStaking = False, minTier = None, maxPerWallet = 200,
     mechanism = mech_lottery, poolVestingDays = 0, exitFee = 5 / 100\<rparr>"
| "POOL_CONFIG liquidity = \<lparr>poolName = ''Liquidity Reserve'', percent = 15,
     requiresStaking = False, minTier = None, maxPerWallet = 0,
     mechanism = mech_auto, poolVestingDays = 365, exitFee = 0\<rparr>"
| "POOL_CONFIG trader_rewards = \<lparr>poolName = ''Trader Rewards'', percent = 10,
     requiresStaking = False, minTier = None, maxPerWallet = 0,
     mechanism = mech_auto, poolVestingDays = 30, exitFee = 0\<rparr>"

text \<open>The keys of \<open>POOL_CONFIG\<close> (and of \<open>launch.pools\<close>) in insertion order.\<close>

definition allPools :: "AllocationPool list" where
  "allPools = [guaranteed, weighted_lottery, public_lottery, fcfs, flipper, liquidity,
               trader_rewards]"

text \<open>A row of \<open>VESTING_TIERS\<close>; the bound \<open>Infinity\<close> of the last row is \<open>None\<close>.\<close>

record VestingTier =
  maxUSD :: "number option"
  tierCliffDays :: number
  tierVestingDays :: number
  tgePercent :: number

definition VESTING_TIERS :: "VestingTier list" where
  "VESTING_TIERS =
     [\<lparr>maxUSD = Some 500, tierCliffDays = 0, tierVestingDays = 0, tgePercent = 100\<rparr>,
      \<lparr>maxUSD = Some 2000, tierCliffDays = 0, tierVestingDays = 30, tgePercent = 50\<rparr>,
      \<lparr>maxUSD = Some 10000, tierCliffDays = 7, tierVestingDays = 60, tgePercent = 25\<rparr>,
      \<lparr>maxUSD = None, tierCliffDays = 14, tierVestingDays = 90, tgePercent = 20\<rparr>]"

fun withinMaxUSD :: "number \<Rightarrow> number option \<Rightarrow> bool" where
  "withinMaxUSD a None = True"
| "withinMaxUSD a (Some m) = (a \<le> m)"

subsection \<open>Vesting schedules\<close>

definition vestingReleases :: nat where
  "vestingReleases = 4"

definition createVestingSchedule :: "number \<Rightarrow> number \<Rightarrow> Date \<Rightarrow> VestingSchedule" where
  "createVestingSchedule usd tokens now =
     (let vtier = (case find (\<lambda>t. withinMaxUSD usd (maxUSD t)) VESTING_TIERS of
                     Some t \<Rightarrow> t
                   | None \<Rightarrow> last VESTING_TIERS)
      in if tierVestingDays vtier = 0
         then \<lparr>vestTotalTokens = tokens, releasedTokens = tokens, cliffDays = 0,
               vestingDays = 0, startDate = now,
               releases = [\<lparr>date = now, amount = tokens, released = True\<rparr>]\<rparr>
         else
           (let tgeAmount = Math_floor (tokens * (tgePercent vtier / 100));
                vestingAmount = tokens - tgeAmount;
                tge = \<lparr>date = now, amount = tgeAmount, released = False\<rparr>;
                releaseAmount = Math_floor (vestingAmount / of_nat vestingReleases);
                releaseInterval = tierVestingDays vtier / of_nat vestingReleases;
                tranche = (\<lambda>i.
                  (let daysFromStart = tierCliffDays vtier + releaseInterval * (of_nat i + 1)
                   in \<lparr>date = new_Date (of_int now + daysFromStart * 24 * 60 * 60 * 1000),
                       amount = (if i = vestingReleases - 1
                                 then vestingAmount - releaseAmount * (of_nat vestingReleases - 1)
                                 else releaseAmount),
                       released = False\<rparr>))
            in \<lparr>vestTotalTokens = tokens, releasedTokens = 0,
                cliffDays = tierCliffDays vtier, vestingDays = tierVestingDays vtier,
                startDate = now,
                releases = tge # map tranche [0..<vestingReleases]\<rparr>))"

subsection \<open>The allocation manager\<close>

record AllocationManager =
  launches :: "string \<rightharpoonup> LaunchAllocation"
  requests :: "string \<rightharpoonup> AllocationRequest list"

definition initializeLaunch ::
  "AllocationManager \<Rightarrow> string \<Rightarrow> number \<Rightarrow> number \<Rightarrow> LaunchAllocation \<times> AllocationManager" where
  "initializeLaunch mgr lid tokens price =
     (let launch =
            \<lparr>launchId = lid, launchTotalTokens = tokens, tokenPrice = price,
             pools = (\<lambda>p.
               (let poolTokens = Math_floor (tokens * (percent (POOL_CONFIG p) / 100))
                in \<lparr>pool = p, totalTokens = poolTokens, totalValueUSD = poolTokens * price,
                    allocated = 0, remaining = poolTokens, participants = [],
                    status = PoolPending\<rparr>)),
             participantCount = 0, oversubscribed = False, oversubscriptionRatio = 1\<rparr>
      in (launch, mgr\<lparr>launches := (launches mgr)(lid \<mapsto> launch),
                      requests := (requests mgr)(lid \<mapsto> [])\<rparr>))"

text \<open>\<open>validateRequest\<close>: \<open>None\<close> is \<open>{valid: true}\<close>, \<open>Some e\<close> is the error message.\<close>

definition validateRequest :: "Stakers \<Rightarrow> AllocationRequest \<Rightarrow> PoolConfig \<Rightarrow> string option" where
  "validateRequest stakers request poolConfig =
     (if requiresStaking poolConfig
      then (case getPosition stakers (reqWallet request) of
              None \<Rightarrow> Some ''Staking required for this pool''
            | Some position \<Rightarrow>
                (case minTier poolConfig of
                   Some m \<Rightarrow>
                     if tierIndex (tier position) < tierIndex m
                     then Some (''Minimum tier required: '' @ tierString m
                                @ ''. Your tier: '' @ tierString (tier position))
                     else None
                 | None \<Rightarrow> None))
      else None)"

datatype SubmitResult = Success AllocationEntry | Failure string

definition submitRequest ::
  "Stakers \<Rightarrow> AllocationManager \<Rightarrow> AllocationRequest \<Rightarrow> SubmitResult \<times> AllocationManager" where
  "submitRequest stakers mgr request =
     (case launches mgr (reqLaunchId request) of
        None \<Rightarrow> (Failure ''Launch not found'', mgr)
      | Some launch \<Rightarrow>
          (let poolConfig = POOL_CONFIG (reqPool request);
               pl = pools launch (reqPool request)
           in if status pl \<noteq> PoolOpen then (Failure ''Pool not open for requests'', mgr)
              else (case validateRequest stakers request poolConfig of
                Some e \<Rightarrow> (Failure e, mgr)
              | None \<Rightarrow>
                 (let request = (if amountUSD request > maxPerWallet poolConfig
                                 then request\<lparr>amountUSD := maxPerWallet poolConfig\<rparr>
                                 else request);
                      w = (case getPosition stakers (reqWallet request) of
                             None \<Rightarrow> allocationWeight (TIER_CONFIG Public)
                           | Some position \<Rightarrow>
                               if effectiveWeight position = 0
                               then allocationWeight (TIER_CONFIG Public)
                               else effectiveWeight position);
                      boost = getLotteryBoost stakers (reqWallet request);
                      entry = \<lparr>entryWallet = reqWallet request, entryPool = reqPool request,
                               requestedAmount = amountUSD request, allocatedTokens = 0,
                               allocatedValueUSD = 0, weight = w,
                               lotteryTickets = Math_floor (amountUSD request * boost),
                               vestingSchedule = None, entryStatus = EntryPending\<rparr>;
                      pl = pl\<lparr>participants := participants pl @ [entry]\<rparr>;
                      launch = launch\<lparr>pools := (pools launch)(reqPool request := pl)\<rparr>;
                      rs = (case requests mgr (reqLaunchId request) of
                              None \<Rightarrow> [] | Some rs \<Rightarrow> rs)
                  in (Success entry,
                      mgr\<lparr>launches := (launches mgr)(reqLaunchId request \<mapsto> launch),
                          requests := (requests mgr)(reqLaunchId request \<mapsto> rs @ [request])\<rparr>)))))"

definition openPool :: "AllocationManager \<Rightarrow> string \<Rightarrow> AllocationPool \<Rightarrow> AllocationManager" where
  "openPool mgr lid p =
     (case launches mgr lid of
        Some launch \<Rightarrow>
          mgr\<lparr>launches := (launches mgr)(lid \<mapsto>
                 launch\<lparr>pools := (pools launch)(p := (pools launch p)\<lparr>status := PoolOpen\<rparr>)\<rparr>)\<rparr>
      | None \<Rightarrow> mgr)"

definition closePool :: "AllocationManager \<Rightarrow> string \<Rightarrow> AllocationPool \<Rightarrow> AllocationManager" where
  "closePool mgr lid p =
     (case launches mgr lid of
        Some launch \<Rightarrow>
          mgr\<lparr>launches := (launches mgr)(lid \<mapsto>
                 launch\<lparr>pools := (pools launch)(p := (pools launch p)\<lparr>status := PoolClosed\<rparr>)\<rparr>)\<rparr>
      | None \<Rightarrow> mgr)"

subsection \<open>Guaranteed pool: pro-rata by weight\<close>

definition totalWeightOf :: "AllocationEntry list \<Rightarrow> number" where
  "totalWeightOf ps = foldl (\<lambda>sum p. sum + weight p) 0 ps"

text \<open>The body of the loop over the participants, as the entry it leaves.\<close>

definition guaranteedAward ::
  "number \<Rightarrow> number \<Rightarrow> number \<Rightarrow> Date \<Rightarrow> AllocationEntry \<Rightarrow> AllocationEntry" where
  "guaranteedAward totalWeight poolTokens price now participant =
     (let share = weight participant / totalWeight;
          shareTokens = Math_floor (poolTokens * share);
          finalTokens = min shareTokens (Math_floor (requestedAmount participant / price));
          finalUSD = finalTokens * price
      in participant\<lparr>allocatedTokens := finalTokens,
                     allocatedValueUSD := finalUSD,
                     entryStatus := Filled,
                     vestingSchedule := Some (createVestingSchedule finalUSD finalTokens now)\<rparr>)"

fun guaranteedLoop ::
  "number \<Rightarrow> number \<Rightarrow> number \<Rightarrow> Date \<Rightarrow> AllocationEntry list \<Rightarrow> number
     \<Rightarrow> AllocationEntry list \<times> number" where
  "guaranteedLoop totalWeight poolTokens price now [] acc = ([], acc)"
| "guaranteedLoop totalWeight poolTokens price now (participant # rest) acc =
     (let participant = guaranteedAward totalWeight poolTokens price now participant;
          (rest, acc) = guaranteedLoop totalWeight poolTokens price now rest
                          (acc + allocatedTokens participant)
      in (participant # rest, acc))"

definition executeGuaranteedPool :: "AllocationManager \<Rightarrow> string \<Rightarrow> Date \<Rightarrow> AllocationManager" where
  "executeGuaranteedPool mgr lid now =
     (case launches mgr lid of
        None \<Rightarrow> mgr
      | Some launch \<Rightarrow>
          (let pl = pools launch guaranteed
           in if length (participants pl) = 0 then mgr
              else
                (let totalWeight = totalWeightOf (participants pl);
                     (ps, acc) = guaranteedLoop totalWeight (totalTokens pl) (tokenPrice launch)
                                   now (participants pl) (allocated pl);
                     pl = pl\<lparr>participants := ps, allocated := acc\<rparr>;
                     pl = pl\<lparr>remaining := totalTokens pl - allocated pl\<rparr>;
                     pl = pl\<lparr>status := PoolDistributed\<rparr>
                 in mgr\<lparr>launches := (launches mgr)(lid \<mapsto>
                          launch\<lparr>pools := (pools launch)(guaranteed := pl)\<rparr>)\<rparr>)))"

subsection \<open>Lottery pools\<close>

text \<open>
  The inner \<open>for (let i = 0; i < participant.lotteryTickets; i++)\<close> pushes the wallet once
  for every integer \<open>i \<ge> 0\<close> below the ticket count.
\<close>

definition buildTickets :: "AllocationEntry list \<Rightarrow> string list" where
  "buildTickets ps =
     concat (map (\<lambda>participant. replicate (nat \<lceil>lotteryTickets participant\<rceil>)
                                          (entryWallet participant)) ps)"

text \<open>
  The Fisher-Yates loop, \<open>i\<close> from \<open>length - 1\<close> down to \<open>1\<close>. \<open>random k\<close> is what the
  \<open>k\<close>-th call of \<open>Math.random()\<close> returns, a number in \<open>[0, 1)\<close>, so that \<open>j \<le> i\<close>.
\<close>

fun shuffleLoop :: "(nat \<Rightarrow> number) \<Rightarrow> nat \<Rightarrow> nat \<Rightarrow> string list \<Rightarrow> string list" where
  "shuffleLoop random k 0 tickets = tickets"
| "shuffleLoop random k (Suc i') tickets =
     (let i = Suc i';
          j = nat \<lfloor>random k * (of_nat i + 1)\<rfloor>
      in shuffleLoop random (Suc k) i' (tickets[i := tickets ! j, j := tickets ! i]))"

definition shuffle :: "(nat \<Rightarrow> number) \<Rightarrow> string list \<Rightarrow> string list" where
  "shuffle random tickets = shuffleLoop random 0 (length tickets - 1) tickets"

text \<open>\<open>participants.find(p => ...)\<close> returns the first match, which the caller mutates.\<close>

fun updateFirst :: "('a \<Rightarrow> bool) \<Rightarrow> ('a \<Rightarrow> 'a) \<Rightarrow> 'a list \<Rightarrow> 'a list" where
  "updateFirst P f [] = []"
| "updateFirst P f (x # xs) = (if P x then f x # xs else x # updateFirst P f xs)"

definition lotteryAward :: "number \<Rightarrow> number \<Rightarrow> Date \<Rightarrow> number \<Rightarrow> AllocationEntry \<Rightarrow> AllocationEntry" where
  "lotteryAward maxPW price now remainingTokens participant =
     (let maxTokens = Math_floor (maxPW / price);
          requestedTokens = Math_floor (requestedAmount participant / price);
          tokens = min maxTokens (min requestedTokens remainingTokens);
          participant = participant\<lparr>allocatedTokens := tokens\<rparr>;
          participant = participant\<lparr>allocatedValueUSD := tokens * price\<rparr>;
          participant = participant\<lparr>entryStatus := Won\<rparr>
      in participant\<lparr>vestingSchedule :=
            Some (createVestingSchedule (allocatedValueUSD participant) tokens now)\<rparr>)"

text \<open>
  The draw: the state of the loop is the set of winners, the tokens left, the participants
  and the pool's \<open>allocated\<close> counter; the result is the last three.
\<close>

fun drawWinners ::
  "number \<Rightarrow> number \<Rightarrow> Date \<Rightarrow> string list \<Rightarrow> string set \<Rightarrow> number \<Rightarrow> AllocationEntry list
     \<Rightarrow> number \<Rightarrow> AllocationEntry list \<times> number \<times> number" where
  "drawWinners maxPW price now [] winners remainingTokens ps acc = (ps, acc, remainingTokens)"
| "drawWinners maxPW price now (w # tickets) winners remainingTokens ps acc =
     (if remainingTokens \<le> 0 then (ps, acc, remainingTokens)
      else if w \<in> winners
        then drawWinners maxPW price now tickets winners remainingTokens ps acc
      else (case find (\<lambda>p. entryWallet p = w) ps of
              None \<Rightarrow> drawWinners maxPW price now tickets winners remainingTokens ps acc
            | Some participant \<Rightarrow>
                (let participant = lotteryAward maxPW price now remainingTokens participant;
                     tokens = allocatedTokens participant
                 in drawWinners maxPW price now tickets (insert w winners)
                      (remainingTokens - tokens)
                      (updateFirst (\<lambda>p. entryWallet p = w) (\<lambda>_. participant) ps)
                      (acc + tokens))))"

definition markLost :: "AllocationEntry list \<Rightarrow> AllocationEntry list" where
  "markLost ps =
     map (\<lambda>participant. if entryStatus participant = EntryPending
                         then participant\<lparr>entryStatus := Lost\<rparr> else participant) ps"

definition executeLotteryPool ::
  "AllocationManager \<Rightarrow> string \<Rightarrow> AllocationPool \<Rightarrow> Date \<Rightarrow> (nat \<Rightarrow> number) \<Rightarrow> AllocationManager" where
  "executeLotteryPool mgr lid p now random =
     (case launches mgr lid of
        None \<Rightarrow> mgr
      | Some launch \<Rightarrow>
          (let poolData = pools launch p
           in if length (participants poolData) = 0 then mgr
              else
                (let tickets = shuffle random (buildTickets (participants poolData));
                     poolConfig = POOL_CONFIG p;
                     (ps, acc, remainingTokens) =
                        drawWinners (maxPerWallet poolConfig) (tokenPrice launch) now tickets {}
                          (totalTokens poolData) (participants poolData) (allocated poolData);
                     poolData = poolData\<lparr>participants := markLost ps, allocated := acc\<rparr>;
                     poolData = poolData\<lparr>remaining := remainingTokens\<rparr>;
                     poolData = poolData\<lparr>status := PoolDistributed\<rparr>
                 in mgr\<lparr>launches := (launches mgr)(lid \<mapsto>
                          launch\<lparr>pools := (pools launch)(p := poolData)\<rparr>)\<rparr>)))"

subsection \<open>First come, first served\<close>

definition fcfsAward :: "number \<Rightarrow> number \<Rightarrow> number \<Rightarrow> AllocationEntry \<Rightarrow> AllocationEntry" where
  "fcfsAward maxPW price remainingTokens participant =
     (let maxTokens = Math_floor (maxPW / price);
          tokens = min maxTokens remainingTokens
      in participant\<lparr>allocatedTokens := tokens, allocatedValueUSD := tokens * price,
                     entryStatus := Filled\<rparr>)"

fun fcfsLoop ::
  "number \<Rightarrow> number \<Rightarrow> AllocationRequest list \<Rightarrow> number \<Rightarrow> AllocationEntry list \<Rightarrow> number
     \<Rightarrow> AllocationEntry list \<times> number \<times> number" where
  "fcfsLoop maxPW price [] remainingTokens ps acc = (ps, acc, remainingTokens)"
| "fcfsLoop maxPW price (request # rest) remainingTokens ps acc =
     (if remainingTokens \<le> 0 then (ps, acc, remainingTokens)
      else (case find (\<lambda>p. entryWallet p = reqWallet request) ps of
              None \<Rightarrow> fcfsLoop maxPW price rest remainingTokens ps acc
            | Some participant \<Rightarrow>
                (let participant = fcfsAward maxPW price remainingTokens participant;
                     tokens = allocatedTokens participant
                 in fcfsLoop maxPW price rest (remainingTokens - tokens)
                      (updateFirst (\<lambda>p. entryWallet p = reqWallet request) (\<lambda>_. participant) ps)
                      (acc + tokens))))"

text \<open>
  The comparator of the \<open>sort\<close> is the constant \<open>0\<close>: the sort is stable and leaves the
  filtered requests in the order of the log.
\<close>

definition executeFCFSPool :: "AllocationManager \<Rightarrow> string \<Rightarrow> AllocationManager" where
  "executeFCFSPool mgr lid =
     (case launches mgr lid of
        None \<Rightarrow> mgr
      | Some launch \<Rightarrow>
          (let pl = pools launch fcfs;
               poolConfig = POOL_CONFIG fcfs;
               rs = (case requests mgr lid of None \<Rightarrow> [] | Some rs \<Rightarrow> rs);
               fcfsRequests = filter (\<lambda>r. reqPool r = fcfs) rs;
               (ps, acc, remainingTokens) =
                  fcfsLoop (maxPerWallet poolConfig) (tokenPrice launch) fcfsRequests
                    (totalTokens pl) (participants pl) (allocated pl);
               pl = pl\<lparr>participants := markLost ps, allocated := acc\<rparr>;
               pl = pl\<lparr>remaining := remainingTokens\<rparr>;
               pl = pl\<lparr>status := PoolDistributed\<rparr>
           in mgr\<lparr>launches := (launches mgr)(lid \<mapsto>
                    launch\<lparr>pools := (pools launch)(fcfs := pl)\<rparr>)\<rparr>))"

subsection \<open>Running a launch\<close>

definition countAwarded :: "PoolAllocation \<Rightarrow> number" where
  "countAwarded pl =
     of_nat (length (filter (\<lambda>x. entryStatus x = Filled \<or> entryStatus x = Won)
                            (participants pl)))"

text \<open>The three lottery executions draw from their own random sequences.\<close>

definition executeAllPools ::
  "AllocationManager \<Rightarrow> string \<Rightarrow> Date \<Rightarrow> (nat \<Rightarrow> number) \<Rightarrow> (nat \<Rightarrow> number) \<Rightarrow> (nat \<Rightarrow> number)
     \<Rightarrow> AllocationManager" where
  "executeAllPools mgr lid now r1 r2 r3 =
     (let mgr = executeGuaranteedPool mgr lid now;
          mgr = executeLotteryPool mgr lid weighted_lottery now r1;
          mgr = executeLotteryPool mgr lid public_lottery now r2;
          mgr = executeLotteryPool mgr lid flipper now r3;
          mgr = executeFCFSPool mgr lid
      in case launches mgr lid of
           Some launch \<Rightarrow>
             mgr\<lparr>launches := (launches mgr)(lid \<mapsto>
                    launch\<lparr>participantCount :=
                      foldl (\<lambda>sum p. sum + countAwarded (pools launch p)) 0 allPools\<rparr>)\<rparr>
         | None \<Rightarrow> mgr)"

definition getLaunchStatus :: "AllocationManager \<Rightarrow> string \<Rightarrow> LaunchAllocation option" where
  "getLaunchStatus mgr lid = launches mgr lid"

section \<open>Vocabulary of the properties\<close>



text \<open>What \<open>getLaunchStatus\<close> shows of one pool, and of the price.\<close>

definition poolOf :: "AllocationManager \<Rightarrow> string \<Rightarrow> AllocationPool \<Rightarrow> PoolAllocation option" where
  "poolOf mgr lid p = map_option (\<lambda>launch. pools launch p) (getLaunchStatus mgr lid)"

definition priceOf :: "AllocationManager \<Rightarrow> string \<Rightarrow> number option" where
  "priceOf mgr lid = map_option tokenPrice (getLaunchStatus mgr lid)"




text \<open>The lifecycle order pending, open, closed, distributed.\<close>

fun statusRank :: "PoolStatus \<Rightarrow> nat" where
  "statusRank PoolPending = 0"
| "statusRank PoolOpen = 1"
| "statusRank PoolClosed = 2"
| "statusRank PoolDistributed = 3"

text \<open>The calls that write a pool's status, and a sequence of them.\<close>

datatype PoolOp =
  OpenPool string AllocationPool
| ClosePool string AllocationPool
| ExecuteGuaranteed string Date
| ExecuteLottery string AllocationPool Date "nat \<Rightarrow> number"
| ExecuteFCFS string
| ExecuteAll string Date "nat \<Rightarrow> number" "nat \<Rightarrow> number" "nat \<Rightarrow> number"

fun applyOp :: "AllocationManager \<Rightarrow> PoolOp \<Rightarrow> AllocationManager" where
  "applyOp mgr (OpenPool lid p) = openPool mgr lid p"
| "applyOp mgr (ClosePool lid p) = closePool mgr lid p"
| "applyOp mgr (ExecuteGuaranteed lid now) = executeGuaranteedPool mgr lid now"
| "applyOp mgr (ExecuteLottery lid p now random) = executeLotteryPool mgr lid p now random"
| "applyOp mgr (ExecuteFCFS lid) = executeFCFSPool mgr lid"
| "applyOp mgr (ExecuteAll lid now r1 r2 r3) = executeAllPools mgr lid now r1 r2 r3"

fun runOps :: "AllocationManager \<Rightarrow> PoolOp list \<Rightarrow> AllocationManager" where
  "runOps mgr [] = mgr"
| "runOps mgr (x # xs) = runOps (applyOp mgr x) xs"

text \<open>
  An operator call in lifecycle order: \<open>openPool\<close> on a pool that is pending or open,
  \<open>closePool\<close> on a pool that is not distributed yet.
\<close>

fun rankAtMost :: "PoolAllocation option \<Rightarrow> PoolStatus \<Rightarrow> bool" where
  "rankAtMost None st = True"
| "rankAtMost (Some pl) st = (statusRank (status pl) \<le> statusRank st)"

fun opInOrder :: "AllocationManager \<Rightarrow> PoolOp \<Rightarrow> bool" where
  "opInOrder mgr (OpenPool lid p) = rankAtMost (poolOf mgr lid p) PoolOpen"
| "opInOrder mgr (ClosePool lid p) = rankAtMost (poolOf mgr lid p) PoolClosed"
| "opInOrder mgr _ = True"

fun opsInOrder :: "AllocationManager \<Rightarrow> PoolOp list \<Rightarrow> bool" where
  "opsInOrder mgr [] = True"
| "opsInOrder mgr (x # xs) = (opInOrder mgr x \<and> opsInOrder (applyOp mgr x) xs)"

section \<open>Scenarios\<close>

definition day :: "int \<Rightarrow> Date" where
  "day n = n * 86400000"

definition emptyLedger :: Stakers where
  "emptyLedger = Map.empty"

definition aliceFirstStake :: StakeRequest where
  "aliceFirstStake = \<lparr>stakeWallet = ''alice'', stakeAmount = 100, stakeLockDays = 30\<rparr>"

definition aliceLedger :: Stakers where
  "aliceLedger = snd (stake emptyLedger aliceFirstStake (day 0))"

definition alicePosition :: StakerPosition where
  "alicePosition = \<lparr>wallet = ''alice'', stakedAmount = 100, stakedAt = day 0,
     lockEndDate = day 30, tier = Public, strongHolderScore = 50,
     effectiveWeight = 5 / 16, totalAllocationsReceived = 0, totalAllocationsValue = 0,
     loyaltyStreak = 0\<rparr>"


definition aliceEarlyUnstake :: UnstakeRequest where
  "aliceEarlyUnstake = \<lparr>unstakeWallet = ''alice'', unstakeAmount = 50, early = True\<rparr>"

definition aliceOverdraw :: UnstakeRequest where
  "aliceOverdraw = \<lparr>unstakeWallet = ''alice'', unstakeAmount = 101, early = False\<rparr>"

definition bobUnstake :: UnstakeRequest where
  "bobUnstake = \<lparr>unstakeWallet = ''bob'', unstakeAmount = 1, early = False\<rparr>"

definition emptyManager :: AllocationManager where
  "emptyManager = \<lparr>launches = Map.empty, requests = Map.empty\<rparr>"

definition goldStake :: "string \<Rightarrow> StakeRequest" where
  "goldStake w = \<lparr>stakeWallet = w, stakeAmount = 50000, stakeLockDays = 90\<rparr>"

definition diamondStake :: "string \<Rightarrow> StakeRequest" where
  "diamondStake w = \<lparr>stakeWallet = w, stakeAmount = 100000, stakeLockDays = 180\<rparr>"

definition guaranteedRequest :: "string \<Rightarrow> string \<Rightarrow> AllocationRequest" where
  "guaranteedRequest lid w =
     \<lparr>reqWallet = w, reqLaunchId = lid, reqPool = guaranteed, amountUSD = 25000\<rparr>"

definition publicRequest :: "string \<Rightarrow> string \<Rightarrow> AllocationRequest" where
  "publicRequest lid w =
     \<lparr>reqWallet = w, reqLaunchId = lid, reqPool = public_lottery, amountUSD = 2\<rparr>"

text \<open>
  Scenario A: a diamond and a gold staker whose score 100/3 gives the multiplier 1, hence the
  weights 10 and 5; a launch of 1,000,000 tokens at $0.001, whose guaranteed pool holds
  300,000 tokens; both request $25,000.
\<close>

definition ledgerA :: Stakers where
  "ledgerA =
     (let s = snd (stake emptyLedger (diamondStake ''alice'') (day 0));
          s = updateSHS s ''alice'' (100 / 3);
          s = snd (stake s (goldStake ''bob'') (day 0))
      in updateSHS s ''bob'' (100 / 3))"

definition managerA :: AllocationManager where
  "managerA =
     (let m = snd (initializeLaunch emptyManager ''L1'' 1000000 (1 / 1000));
          m = openPool m ''L1'' guaranteed;
          m = snd (submitRequest ledgerA m (guaranteedRequest ''L1'' ''alice''));
          m = snd (submitRequest ledgerA m (guaranteedRequest ''L1'' ''bob''))
      in closePool m ''L1'' guaranteed)"

definition guaranteedEntry :: "string \<Rightarrow> number \<Rightarrow> number \<Rightarrow> AllocationEntry" where
  "guaranteedEntry w wt tk = \<lparr>entryWallet = w, entryPool = guaranteed, requestedAmount = 25000,
      allocatedTokens = 0, allocatedValueUSD = 0, weight = wt, lotteryTickets = tk,
      vestingSchedule = None, entryStatus = EntryPending\<rparr>"

definition poolA :: PoolAllocation where
  "poolA = \<lparr>pool = guaranteed, totalTokens = 300000, totalValueUSD = 300,
      allocated = 0, remaining = 300000,
      participants = [guaranteedEntry ''alice'' 10 125000, guaranteedEntry ''bob'' 5 75000],
      status = PoolClosed\<rparr>"




text \<open>
  Scenario C: a launch of 100 tokens at $0.10, whose public lottery holds 10 tokens; two
  wallets without a stake request $2 each (2 tickets each, 20 tokens each). The random
  source returns 0 at every call.
\<close>

definition managerC :: AllocationManager where
  "managerC =
     (let m = snd (initializeLaunch emptyManager ''L3'' 100 (1 / 10));
          m = openPool m ''L3'' public_lottery;
          m = snd (submitRequest emptyLedger m (publicRequest ''L3'' ''frank''));
          m = snd (submitRequest emptyLedger m (publicRequest ''L3'' ''grace''))
      in closePool m ''L3'' public_lottery)"



definition zeroRandom :: "nat \<Rightarrow> number" where
  "zeroRandom k = 0"




text \<open>A random source that makes the shuffle of scenario C put a ticket of grace first.\<close>

definition graceFirstRandom :: "nat \<Rightarrow> number" where
  "graceFirstRandom k = (if k = 0 then 1 / 2 else if k = 1 then 0 else 3 / 4)"

text \<open>Two sequences of calls on scenario A.\<close>

definition closeThenExecute :: "PoolOp list" where
  "closeThenExecute = [ClosePool ''L1'' guaranteed, ExecuteGuaranteed ''L1'' (day 0)]"

section \<open>Arithmetic of rationals\<close>

lemma floor_rat_numeral [simp]:
  "\<lfloor>numeral a / numeral b :: rat\<rfloor> = numeral a div numeral b"
  by (metis floor_divide_of_int_eq of_int_numeral)

lemma floor_rat_neg_numeral [simp]:
  "\<lfloor>- (numeral a / numeral b) :: rat\<rfloor> = - numeral a div numeral b"
  by (metis floor_divide_of_int_eq of_int_numeral of_int_minus minus_divide_left)

lemma ceiling_rat_numeral [simp]:
  "\<lceil>numeral a / numeral b :: rat\<rceil> = - (- numeral a div numeral b)"
  unfolding ceiling_def by (metis floor_rat_neg_numeral)




section \<open>Staking tiers: properties\<close>

text \<open>
  C10. Tier monotonicity. Under the order public < bronze < silver < gold < diamond
  (\<open>tierIndex\<close>), \<open>getTierForStake\<close> is monotone in both arguments: for amounts
  \<open>a1 \<le> a2\<close> and lock durations \<open>d1 \<le> d2\<close> the tier of \<open>(a1, d1)\<close> is at most the
  tier of \<open>(a2, d2)\<close>.
\<close>

theorem tier_monotone:
  "a1 \<le> a2 \<Longrightarrow> d1 \<le> d2 \<Longrightarrow>
     tierIndex (getTierForStake a1 d1) \<le> tierIndex (getTierForStake a2 d2)"
  by (simp add: getTierForStake_def)

theorem tier_monotone_witness:
  "(50000 :: number) \<le> 100000 \<and> (90 :: number) \<le> 180
   \<and> getTierForStake 50000 90 = Gold \<and> getTierForStake 100000 180 = Diamond
   \<and> tierIndex (getTierForStake 50000 90) \<le> tierIndex (getTierForStake 100000 180)"
  using tier_monotone [of 50000 100000 90 180] by (simp add: getTierForStake_def)

subsection \<open>The scenario ledger\<close>

lemma aliceLedger_eq: "aliceLedger = emptyLedger(''alice'' \<mapsto> alicePosition)"
  by (simp add: aliceLedger_def emptyLedger_def stake_def aliceFirstStake_def Let_def day_def
      alicePosition_def getTierForStake_def getEffectiveWeight_def shsToMultiplier_def
      SHS_MIN_MULTIPLIER_def SHS_MAX_MULTIPLIER_def new_Date_def)

lemma aliceLedger_alice: "aliceLedger ''alice'' = Some alicePosition"
  by (simp add: aliceLedger_eq)

lemma aliceLedger_bob: "aliceLedger ''bob'' = None"
  by (simp add: aliceLedger_eq emptyLedger_def)

subsection \<open>Stake\<close>



subsection \<open>Unstake\<close>

text \<open>
  C8. Early unstake penalty. When a position exists, the amount does not exceed its balance,
  \<open>early\<close> is set and the lock-end date is still in the future, \<open>unstake\<close> fulfils with a
  penalty of 10% of the amount and returns the other 90%; the balance goes down by the full
  amount. If nothing is left the position is deleted; otherwise the tier is recomputed from
  the reduced balance and the whole days left until the lock end, and the weight from that
  tier. Unstaking 50 of 100 returns 45 and leaves 50 staked.
\<close>

theorem unstake_early_penalty:
  assumes "stakers (unstakeWallet r) = Some pos" "unstakeAmount r \<le> stakedAmount pos"
    "early r" "lockEndDate pos > now"
  shows "\<exists>res s'. unstake stakers r now = (Fulfilled res, s')
     \<and> penaltyApplied res = unstakeAmount r / 10
     \<and> amountReturned res = unstakeAmount r * (9 / 10)
     \<and> (if stakedAmount pos - unstakeAmount r \<le> 0
         then newPosition res = None \<and> s' = stakers(unstakeWallet r := None)
         else (\<exists>p. newPosition res = Some p \<and> s' = stakers(unstakeWallet r \<mapsto> p)
                 \<and> stakedAmount p = stakedAmount pos - unstakeAmount r
                 \<and> tier p = getTierForStake (stakedAmount p)
                      (max 0 (Math_floor ((getTime (lockEndDate pos) - of_int now) / msPerDay)))
                 \<and> effectiveWeight p = getEffectiveWeight (tier p) (strongHolderScore pos)))"
  using assms
  by (simp add: unstake_def Let_def EARLY_UNSTAKE_PENALTY_def msPerDay_def)

theorem unstake_early_penalty_witness:
  "aliceLedger (unstakeWallet aliceEarlyUnstake) = Some alicePosition
   \<and> unstakeAmount aliceEarlyUnstake \<le> stakedAmount alicePosition
   \<and> early aliceEarlyUnstake \<and> lockEndDate alicePosition > day 1
   \<and> (\<exists>res s'. unstake aliceLedger aliceEarlyUnstake (day 1) = (Fulfilled res, s')
        \<and> amountReturned res = 45 \<and> penaltyApplied res = 5
        \<and> (\<exists>p. newPosition res = Some p \<and> s' = aliceLedger(''alice'' \<mapsto> p)
              \<and> stakedAmount p = 50 \<and> tier p = getTierForStake 50 29
              \<and> effectiveWeight p = getEffectiveWeight (tier p) 50))"
proof -
  have h1: "aliceLedger (unstakeWallet aliceEarlyUnstake) = Some alicePosition"
    by (simp add: aliceLedger_alice aliceEarlyUnstake_def)
  have h2: "unstakeAmount aliceEarlyUnstake \<le> stakedAmount alicePosition"
    by (simp add: aliceEarlyUnstake_def alicePosition_def)
  have h3: "early aliceEarlyUnstake" by (simp add: aliceEarlyUnstake_def)
  have h4: "lockEndDate alicePosition > day 1" by (simp add: alicePosition_def day_def)
  have fl: "Math_floor ((getTime (lockEndDate alicePosition) - rat_of_int (day 1)) / msPerDay)
              = 29"
    by (simp add: alicePosition_def day_def msPerDay_def getTime_def Math_floor_def)
  show ?thesis
    using unstake_early_penalty [of aliceLedger aliceEarlyUnstake alicePosition "day 1",
        OF h1 h2 h3 h4] h1 h2 h3 h4 fl
    by (auto simp add: aliceEarlyUnstake_def alicePosition_def)
qed

text \<open>
  C7, as the code has it. \<open>unstake\<close> fails exactly when the wallet has no position or the
  amount exceeds the staked balance. The failure is not a returned result value: the method
  throws \<open>Error('No staking position found')\<close> or \<open>Error('Insufficient staked balance')\<close>,
  which rejects its promise (the HTTP route catches it). Both are thrown before any write,
  so a rejected unstake leaves the ledger as it was.
\<close>

theorem unstake_error_contract:
  "(stakers (unstakeWallet r) = None \<longrightarrow>
      unstake stakers r now = (Rejected (Error ''No staking position found''), stakers))
   \<and> (\<forall>pos. stakers (unstakeWallet r) = Some pos \<and> unstakeAmount r > stakedAmount pos \<longrightarrow>
      unstake stakers r now = (Rejected (Error ''Insufficient staked balance''), stakers))
   \<and> (\<forall>e. fst (unstake stakers r now) = Rejected e \<longrightarrow>
        snd (unstake stakers r now) = stakers
        \<and> (stakers (unstakeWallet r) = None
           \<or> (\<exists>pos. stakers (unstakeWallet r) = Some pos
                    \<and> unstakeAmount r > stakedAmount pos)))"
  by (auto simp add: unstake_def Let_def split: option.splits if_splits)

theorem unstake_error_contract_witness:
  "aliceLedger (unstakeWallet bobUnstake) = None
   \<and> unstake aliceLedger bobUnstake (day 1)
       = (Rejected (Error ''No staking position found''), aliceLedger)
   \<and> aliceLedger (unstakeWallet aliceOverdraw) = Some alicePosition
   \<and> unstakeAmount aliceOverdraw > stakedAmount alicePosition
   \<and> unstake aliceLedger aliceOverdraw (day 1)
       = (Rejected (Error ''Insufficient staked balance''), aliceLedger)
   \<and> snd (unstake aliceLedger aliceOverdraw (day 1)) = aliceLedger"
proof -
  have h1: "aliceLedger (unstakeWallet bobUnstake) = None"
    by (simp add: aliceLedger_bob bobUnstake_def)
  have h2: "aliceLedger (unstakeWallet aliceOverdraw) = Some alicePosition"
    by (simp add: aliceLedger_alice aliceOverdraw_def)
  have h3: "unstakeAmount aliceOverdraw > stakedAmount alicePosition"
    by (simp add: aliceOverdraw_def alicePosition_def)
  show ?thesis
    using unstake_error_contract [of aliceLedger bobUnstake "day 1"]
      unstake_error_contract [of aliceLedger aliceOverdraw "day 1"] h1 h2 h3
    by simp
qed

text \<open>
  C7 as stated fails: the failure of \<open>unstake\<close> on a wallet without a position is a
  rejection (a thrown \<open>Error\<close>), not a fulfilled result.
\<close>

theorem unstake_throws_counterexample:
  "fst (unstake aliceLedger bobUnstake (day 1))
     = Rejected (Error ''No staking position found'')"
  by (simp add: unstake_def aliceLedger_bob bobUnstake_def)

subsection \<open>Strong Holder Score\<close>













section \<open>Vesting schedules: properties\<close>



section \<open>Guaranteed pool: properties\<close>






lemma executeGuaranteedPool_price:
  "priceOf (executeGuaranteedPool mgr lid now) lid = priceOf mgr lid"
  by (auto simp add: priceOf_def getLaunchStatus_def executeGuaranteedPool_def
      Let_def split: option.splits prod.splits)




subsection \<open>The scenario launches\<close>

lemma managerA_pool: "poolOf managerA ''L1'' guaranteed = Some poolA"
  by code_simp






subsection \<open>Sums of floored shares\<close>








section \<open>Lottery and first-come pools: properties\<close>







section \<open>Conservation\<close>










section \<open>Running a distribution twice\<close>

text \<open>
  C4 says that a second distribution of a pool changes nothing. The code has no guard on the
  status and adds to the allocated counter without resetting it. In scenario A the second
  execution of the guaranteed pool takes allocated from 300,000 to 600,000 of 300,000 tokens
  and remaining from 0 to -300,000, the awards of the participants staying the same. In
  scenario C the first lottery run gives frank the 10 tokens of the pool; a second run whose
  shuffle draws grace first gives grace 10 tokens as well: 20 tokens awarded from a pool of
  10, with allocated 20 and remaining 0.
\<close>

theorem rerun_double_counts:
  "map_option allocated
     (poolOf (executeGuaranteedPool managerA ''L1'' (day 0)) ''L1'' guaranteed) = Some 300000
   \<and> map_option remaining
     (poolOf (executeGuaranteedPool managerA ''L1'' (day 0)) ''L1'' guaranteed) = Some 0
   \<and> map_option allocated
     (poolOf (executeGuaranteedPool (executeGuaranteedPool managerA ''L1'' (day 0))
                ''L1'' (day 0)) ''L1'' guaranteed) = Some 600000
   \<and> map_option remaining
     (poolOf (executeGuaranteedPool (executeGuaranteedPool managerA ''L1'' (day 0))
                ''L1'' (day 0)) ''L1'' guaranteed) = Some (- 300000)
   \<and> map_option totalTokens
     (poolOf (executeGuaranteedPool (executeGuaranteedPool managerA ''L1'' (day 0))
                ''L1'' (day 0)) ''L1'' guaranteed) = Some 300000
   \<and> map_option (map allocatedTokens \<circ> participants)
     (poolOf (executeLotteryPool managerC ''L3'' public_lottery (day 0) zeroRandom)
        ''L3'' public_lottery) = Some [10, 0]
   \<and> map_option allocated
     (poolOf (executeLotteryPool managerC ''L3'' public_lottery (day 0) zeroRandom)
        ''L3'' public_lottery) = Some 10
   \<and> map_option (map allocatedTokens \<circ> participants)
     (poolOf (executeLotteryPool
                (executeLotteryPool managerC ''L3'' public_lottery (day 0) zeroRandom)
                ''L3'' public_lottery (day 0) graceFirstRandom)
        ''L3'' public_lottery) = Some [10, 10]
   \<and> map_option allocated
     (poolOf (executeLotteryPool
                (executeLotteryPool managerC ''L3'' public_lottery (day 0) zeroRandom)
                ''L3'' public_lottery (day 0) graceFirstRandom)
        ''L3'' public_lottery) = Some 20
   \<and> map_option totalTokens
     (poolOf (executeLotteryPool
                (executeLotteryPool managerC ''L3'' public_lottery (day 0) zeroRandom)
                ''L3'' public_lottery (day 0) graceFirstRandom)
        ''L3'' public_lottery) = Some 10"
  by code_simp

section \<open>Pool lifecycle\<close>

lemma openPool_poolOf:
  "poolOf mgr lid p = Some pl \<Longrightarrow>
     poolOf (openPool mgr lid' p') lid p
       = Some (if lid' = lid \<and> p' = p then pl\<lparr>status := PoolOpen\<rparr> else pl)"
  by (auto simp add: poolOf_def getLaunchStatus_def openPool_def split: option.splits)

lemma closePool_poolOf:
  "poolOf mgr lid p = Some pl \<Longrightarrow>
     poolOf (closePool mgr lid' p') lid p
       = Some (if lid' = lid \<and> p' = p then pl\<lparr>status := PoolClosed\<rparr> else pl)"
  by (auto simp add: poolOf_def getLaunchStatus_def closePool_def split: option.splits)

lemma executeGuaranteedPool_status:
  "poolOf mgr lid p = Some pl \<Longrightarrow>
     \<exists>pl'. poolOf (executeGuaranteedPool mgr lid' now) lid p = Some pl'
        \<and> (status pl' = status pl \<or> status pl' = PoolDistributed)"
  by (auto simp add: poolOf_def getLaunchStatus_def executeGuaranteedPool_def Let_def
      split: option.splits prod.splits)

lemma executeLotteryPool_status:
  "poolOf mgr lid p = Some pl \<Longrightarrow>
     \<exists>pl'. poolOf (executeLotteryPool mgr lid' p' now random) lid p = Some pl'
        \<and> (status pl' = status pl \<or> status pl' = PoolDistributed)"
  by (auto simp add: poolOf_def getLaunchStatus_def executeLotteryPool_def Let_def
      split: option.splits prod.splits)

lemma executeFCFSPool_status:
  "poolOf mgr lid p = Some pl \<Longrightarrow>
     \<exists>pl'. poolOf (executeFCFSPool mgr lid') lid p = Some pl'
        \<and> (status pl' = status pl \<or> status pl' = PoolDistributed)"
  by (auto simp add: poolOf_def getLaunchStatus_def executeFCFSPool_def Let_def
      split: option.splits prod.splits)

lemma participantCount_poolOf:
  "poolOf mgr lid p = Some pl \<Longrightarrow>
     poolOf (case launches mgr lid' of
               Some launch \<Rightarrow> mgr\<lparr>launches := (launches mgr)(lid' \<mapsto> launch\<lparr>participantCount := n launch\<rparr>)\<rparr>
             | None \<Rightarrow> mgr) lid p = Some pl"
  by (auto simp add: poolOf_def getLaunchStatus_def split: option.splits)

lemma executeAllPools_status:
  assumes "poolOf mgr lid p = Some pl"
  shows "\<exists>pl'. poolOf (executeAllPools mgr lid' now r1 r2 r3) lid p = Some pl'
        \<and> (status pl' = status pl \<or> status pl' = PoolDistributed)"
proof -
  let ?m1 = "executeGuaranteedPool mgr lid' now"
  let ?m2 = "executeLotteryPool ?m1 lid' weighted_lottery now r1"
  let ?m3 = "executeLotteryPool ?m2 lid' public_lottery now r2"
  let ?m4 = "executeLotteryPool ?m3 lid' flipper now r3"
  let ?m5 = "executeFCFSPool ?m4 lid'"
  from executeGuaranteedPool_status [OF assms] obtain p1 where
    p1: "poolOf ?m1 lid p = Some p1" "status p1 = status pl \<or> status p1 = PoolDistributed"
    by blast
  from executeLotteryPool_status [OF p1(1)] obtain p2 where
    p2: "poolOf ?m2 lid p = Some p2" "status p2 = status p1 \<or> status p2 = PoolDistributed"
    by blast
  from executeLotteryPool_status [OF p2(1)] obtain p3 where
    p3: "poolOf ?m3 lid p = Some p3" "status p3 = status p2 \<or> status p3 = PoolDistributed"
    by blast
  from executeLotteryPool_status [OF p3(1)] obtain p4 where
    p4: "poolOf ?m4 lid p = Some p4" "status p4 = status p3 \<or> status p4 = PoolDistributed"
    by blast
  from executeFCFSPool_status [OF p4(1)] obtain p5 where
    p5: "poolOf ?m5 lid p = Some p5" "status p5 = status p4 \<or> status p5 = PoolDistributed"
    by blast
  have "poolOf (executeAllPools mgr lid' now r1 r2 r3) lid p = Some p5"
    unfolding executeAllPools_def Let_def by (rule participantCount_poolOf [OF p5(1)])
  with p1(2) p2(2) p3(2) p4(2) p5(2) show ?thesis by auto
qed

lemma statusRank_Distributed: "statusRank st \<le> 3"
  by (cases st) auto

lemma applyOp_status:
  assumes "opInOrder mgr x" "poolOf mgr lid p = Some pl"
  shows "\<exists>pl'. poolOf (applyOp mgr x) lid p = Some pl'
        \<and> statusRank (status pl) \<le> statusRank (status pl')"
proof (cases x)
  case (OpenPool lid' p')
  with assms show ?thesis by (auto simp add: openPool_poolOf)
next
  case (ClosePool lid' p')
  with assms show ?thesis by (auto simp add: closePool_poolOf)
next
  case (ExecuteGuaranteed lid' now)
  with executeGuaranteedPool_status [OF assms(2), of lid' now] show ?thesis
    by (auto simp add: statusRank_Distributed)
next
  case (ExecuteLottery lid' p' now random)
  with executeLotteryPool_status [OF assms(2), of lid' p' now random] show ?thesis
    by (auto simp add: statusRank_Distributed)
next
  case (ExecuteFCFS lid')
  with executeFCFSPool_status [OF assms(2), of lid'] show ?thesis
    by (auto simp add: statusRank_Distributed)
next
  case (ExecuteAll lid' now r1 r2 r3)
  with executeAllPools_status [OF assms(2), of lid' now r1 r2 r3] show ?thesis
    by (auto simp add: statusRank_Distributed)
qed

text \<open>
  C5, as the code has it. Along any sequence of \<open>openPool\<close>, \<open>closePool\<close> and
  distribution calls in which every \<open>openPool\<close> meets a pool that is pending or open and
  every \<open>closePool\<close> a pool that is not distributed yet, the status of every pool of every
  launch only moves forward in the order pending, open, closed, distributed. The executions
  never move a status back. The two operator calls check nothing themselves: they assign
  open and closed to a pool in any status.
\<close>

theorem status_monotone_in_order:
  "opsInOrder mgr ops \<Longrightarrow> poolOf mgr lid p = Some pl \<Longrightarrow>
     \<exists>pl'. poolOf (runOps mgr ops) lid p = Some pl'
        \<and> statusRank (status pl) \<le> statusRank (status pl')"
proof (induction ops arbitrary: mgr pl)
  case Nil
  then show ?case by simp
next
  case (Cons x xs)
  from Cons.prems have io: "opInOrder mgr x" and rest: "opsInOrder (applyOp mgr x) xs" by simp_all
  from applyOp_status [OF io Cons.prems(2)] obtain pl1 where
    p1: "poolOf (applyOp mgr x) lid p = Some pl1" "statusRank (status pl) \<le> statusRank (status pl1)"
    by blast
  from Cons.IH [OF rest p1(1)] obtain pl' where
    "poolOf (runOps (applyOp mgr x) xs) lid p = Some pl'"
    "statusRank (status pl1) \<le> statusRank (status pl')"
    by blast
  with p1(2) show ?case by auto
qed

theorem status_monotone_in_order_witness:
  "opsInOrder managerA closeThenExecute
   \<and> poolOf managerA ''L1'' guaranteed = Some poolA \<and> status poolA = PoolClosed
   \<and> (\<exists>pl'. poolOf (runOps managerA closeThenExecute) ''L1'' guaranteed = Some pl'
         \<and> status pl' = PoolDistributed
         \<and> statusRank (status poolA) \<le> statusRank (status pl'))"
proof -
  have o: "opsInOrder managerA closeThenExecute"
    by (simp add: closeThenExecute_def managerA_pool poolA_def)
  have s: "map_option status (poolOf (runOps managerA closeThenExecute) ''L1'' guaranteed)
             = Some PoolDistributed"
    by code_simp
  show ?thesis
    using status_monotone_in_order [OF o managerA_pool] o managerA_pool s
    by (auto simp add: poolA_def)
qed

text \<open>
  C5 as stated fails: after the guaranteed pool of scenario A has been executed and is
  distributed, \<open>openPool\<close> sets it back to open.
\<close>

theorem status_regress_counterexample:
  "map_option status
     (poolOf (executeGuaranteedPool managerA ''L1'' (day 0)) ''L1'' guaranteed)
     = Some PoolDistributed
   \<and> map_option status
     (poolOf (openPool (executeGuaranteedPool managerA ''L1'' (day 0)) ''L1'' guaranteed)
        ''L1'' guaranteed)
     = Some PoolOpen
   \<and> statusRank PoolOpen < statusRank PoolDistributed"
  by code_simp

end
